theory Spec2Isabelle
  imports Complex_Main "HOL-Library.Char_ord"
begin

section \<open>Speech playback controller (services/geminiService.ts)\<close>

subsection \<open>Strings: \<open>toLowerCase\<close> and \<open>includes\<close>\<close>

text \<open>
  Voice names and keywords are modelled as ASCII strings. On such strings
  \<open>String.prototype.toLowerCase\<close> maps \<open>A\<close>..\<open>Z\<close> to \<open>a\<close>..\<open>z\<close> and leaves every
  other character alone; \<open>String.prototype.includes\<close> is the substring test
  (\<open>includesStr\<close> here: \<open>includes\<close> is a reserved word of the theory language).
\<close>

definition lowerChar :: "char \<Rightarrow> char" where
  "lowerChar c =
     (if CHR ''A'' \<le> c \<and> c \<le> CHR ''Z'' then char_of (of_char c + (32::nat)) else c)"

definition toLowerCase :: "string \<Rightarrow> string" where
  "toLowerCase s = map lowerChar s"

fun startsWith :: "string \<Rightarrow> string \<Rightarrow> bool" where
  "startsWith s [] = True"
| "startsWith [] (k # ks) = False"
| "startsWith (c # cs) (k # ks) = (c = k \<and> startsWith cs ks)"

fun includesStr :: "string \<Rightarrow> string \<Rightarrow> bool" where
  "includesStr [] k = (k = [])"
| "includesStr (c # cs) k = (startsWith (c # cs) k \<or> includesStr cs k)"

subsection \<open>Voices and the choice of a voice in \<open>playBrowserTts\<close>\<close>

record voice =
  v_name :: string
  v_lang :: string

text \<open>
  \<open>findVoice\<close> is the closure of lines 158-160: the first voice of the pool whose
  lower-cased name contains some lower-cased keyword.
\<close>

definition findVoice :: "voice list \<Rightarrow> string list \<Rightarrow> voice option" where
  "findVoice pool keywords =
     find (\<lambda>v. list_ex (\<lambda>k. includesStr (toLowerCase (v_name v)) (toLowerCase k)) keywords) pool"

text \<open>
  Lines 153-174: the pool is the \<open>en-US\<close> voices when there is one, all voices otherwise;
  the role picks the keyword list; a role outside the four leaves \<open>selectedVoice\<close>
  undefined; an undefined \<open>selectedVoice\<close> becomes \<open>pool[0]\<close>, which is undefined again
  on an empty pool.
\<close>

definition selectVoice :: "voice list \<Rightarrow> string \<Rightarrow> voice option" where
  "selectVoice availableVoices speakerType =
     (let usVoices = filter (\<lambda>v. v_lang v = ''en-US'') availableVoices;
          pool = (if length usVoices > 0 then usVoices else availableVoices);
          selectedVoice =
            (if speakerType = ''female'' then
               findVoice pool [''Aria'', ''Natural'', ''Zira'', ''Google US English'', ''female'']
             else if speakerType = ''male'' then
               findVoice pool [''Guy'', ''Natural'', ''David'', ''male'']
             else if speakerType = ''lecturer'' then
               findVoice pool [''Guy'', ''Christopher'', ''Roger'', ''Natural'', ''male'']
             else if speakerType = ''duo'' then
               findVoice pool [''Aria'', ''Natural'', ''Google US English'']
             else None)
      in case selectedVoice of
           Some v \<Rightarrow> Some v
         | None \<Rightarrow> (case pool of [] \<Rightarrow> None | v # _ \<Rightarrow> Some v))"

subsection \<open>Module state and the host\<close>

text \<open>
  \<open>onStart\<close> and \<open>onEnd\<close> are closures handed to \<open>playNativeTts\<close>. The model gives every
  invocation of \<open>playNativeTts\<close> a number and records each call of a closure, in order,
  in the field \<open>fired\<close>.
\<close>

datatype callback = OnStart nat | OnEnd nat

text \<open>
  An \<open>Audio\<close> object made at line 100: \<open>a_call\<close> is the invocation whose closures its
  handlers hold, \<open>a_paused\<close> its \<open>paused\<close> attribute, \<open>a_revoked\<close> whether
  \<open>URL.revokeObjectURL\<close> has run on its object URL.
\<close>

record audio =
  a_call :: nat
  a_paused :: bool
  a_revoked :: bool

text \<open>
  A \<open>SpeechSynthesisUtterance\<close> made at line 149, with the invocation whose closures its
  handlers hold. The literals \<open>0.9\<close> and \<open>1.0\<close> of lines 150-151 are kept as the rationals
  they denote. \<open>u_voice = None\<close> is an utterance whose \<open>voice\<close> was never set.
\<close>

record utterance =
  u_call :: nat
  u_text :: string
  u_rate :: rat
  u_pitch :: rat
  u_voice :: "voice option"

text \<open>
  \<open>playNativeTts\<close> is an async function: between two of its awaits the host runs other
  code. \<open>pc\<close> is the await an invocation is suspended at; \<open>Resolved\<close> and \<open>Rejected\<close> are
  the two ways its promise settles.
\<close>

datatype pc = AwaitHealth | AwaitTts | AwaitBlob | AwaitPlay | Resolved | Rejected

record task =
  t_text :: string
  t_speaker :: string
  t_pc :: pc

text \<open>
  The three kinds of host the module tells apart: one without a global \<open>window\<close>
  (\<open>typeof window === 'undefined'\<close>), a window without \<open>speechSynthesis\<close>, and a window
  with it.
\<close>

datatype host_kind = NoWindow | NoSpeech | Speech

text \<open>
  The module variables of lines 8-13, then what the host holds: its kind, what
  \<open>getVoices()\<close> returns, the \<open>Audio\<close> objects and utterances created so far, the queue
  of \<open>window.speechSynthesis\<close> (indices into \<open>utts\<close>), the invocations of
  \<open>playNativeTts\<close>, and the number of requests sent to \<open>/health\<close> and to \<open>/tts\<close>.
\<close>

record tts =
  audioElement :: "nat option"
  isEdgeTtsAvailable :: "bool option"
  voicesLoaded :: bool
  availableVoices :: "voice list"
  hostKind :: host_kind
  sysVoices :: "voice list"
  audios :: "audio list"
  utts :: "utterance list"
  queue :: "nat list"
  tasks :: "task list"
  healthFetches :: nat
  ttsFetches :: nat
  fired :: "callback list"

text \<open>
  \<open>hasSpeech\<close> is the guard of lines 17, 23 and 65,
  \<open>typeof window !== 'undefined' && 'speechSynthesis' in window\<close>.
\<close>

definition hasWindow :: "tts \<Rightarrow> bool" where
  "hasWindow s = (hostKind s \<noteq> NoWindow)"

definition hasSpeech :: "tts \<Rightarrow> bool" where
  "hasSpeech s = (hostKind s = Speech)"

definition loadVoices :: "tts \<Rightarrow> tts" where
  "loadVoices s =
     (if hasSpeech s then s\<lparr>availableVoices := sysVoices s, voicesLoaded := True\<rparr> else s)"

text \<open>
  The state after the module has been loaded (lines 8-28) on a host of kind \<open>k\<close>;
  \<open>init\<close> is the same in a browser window, with or without \<open>speechSynthesis\<close>.
\<close>

definition initOn :: "host_kind \<Rightarrow> voice list \<Rightarrow> tts" where
  "initOn k vs =
     loadVoices
       \<lparr>audioElement = None, isEdgeTtsAvailable = None, voicesLoaded = False,
        availableVoices = [], hostKind = k, sysVoices = vs, audios = [], utts = [],
        queue = [], tasks = [], healthFetches = 0, ttsFetches = 0, fired = []\<rparr>"

definition init :: "bool \<Rightarrow> voice list \<Rightarrow> tts" where
  "init speech vs = initOn (if speech then Speech else NoSpeech) vs"

subsection \<open>\<open>stopNativeTts\<close> and \<open>playBrowserTts\<close>\<close>

text \<open>
  Lines 56-68: the element in \<open>audioElement\<close>, if any, is paused and dropped, and the
  synthesizer, if any, is told to cancel, which empties its queue. (\<open>currentTime\<close> is not
  modelled.)
\<close>

definition pauseAudio :: "nat \<Rightarrow> audio list \<Rightarrow> audio list" where
  "pauseAudio a as = (if a < length as then as[a := (as ! a)\<lparr>a_paused := True\<rparr>] else as)"

definition stopNativeTts :: "tts \<Rightarrow> tts" where
  "stopNativeTts s =
     (let s1 = (case audioElement s of
                  Some a \<Rightarrow> s\<lparr>audios := pauseAudio a (audios s), audioElement := None\<rparr>
                | None \<Rightarrow> s)
      in if hasSpeech s1 then s1\<lparr>queue := []\<rparr> else s1)"

text \<open>
  Lines 131-188; \<open>None\<close> is a throw. Line 137 evaluates \<open>'speechSynthesis' in window\<close>
  with no \<open>typeof\<close> guard: on a host without \<open>window\<close> that is a ReferenceError, before
  anything else has been done. In a window without \<open>speechSynthesis\<close> the function calls
  \<open>onEnd\<close> and returns. Otherwise it cancels the queue, reads the voices again when it
  holds none, builds the utterance with rate 0.9 and pitch 1.0, sets its voice when one
  was selected, and hands it to \<open>speak\<close>. The third argument is the invocation whose
  closures the utterance holds.
\<close>

definition playBrowserTts :: "string \<Rightarrow> string \<Rightarrow> nat \<Rightarrow> tts \<Rightarrow> tts option" where
  "playBrowserTts txt speakerType c s =
     (case hostKind s of
        NoWindow \<Rightarrow> None
      | NoSpeech \<Rightarrow> Some (s\<lparr>fired := fired s @ [OnEnd c]\<rparr>)
      | Speech \<Rightarrow>
          let s1 = s\<lparr>queue := []\<rparr>;
              s2 = (if length (availableVoices s1) = 0
                    then s1\<lparr>availableVoices := sysVoices s1\<rparr> else s1);
              u = \<lparr>u_call = c, u_text = txt, u_rate = 9 / 10, u_pitch = 1,
                   u_voice = selectVoice (availableVoices s2) speakerType\<rparr>
          in Some (s2\<lparr>utts := utts s2 @ [u], queue := queue s2 @ [length (utts s2)]\<rparr>))"

subsection \<open>\<open>playEdgeTts\<close> and \<open>playNativeTts\<close>\<close>

text \<open>What the host delivers: settled promises and events of media elements and utterances.\<close>

datatype host_event =
    HealthResponse nat bool
  | HealthError nat
  | TtsResponse nat bool
  | TtsError nat
  | BlobResolved nat
  | BlobError nat
  | PlayResolved nat
  | PlayRejected nat
  | AudioPlay nat
  | AudioEnded nat
  | AudioError nat
  | UttStart nat
  | UttEnd nat
  | UttError nat
  | HostVoices "voice list"
  | VoicesChanged

definition pending :: "nat \<Rightarrow> pc \<Rightarrow> tts \<Rightarrow> bool" where
  "pending c p s = (c < length (tasks s) \<and> t_pc (tasks s ! c) = p)"

definition setPc :: "nat \<Rightarrow> pc \<Rightarrow> tts \<Rightarrow> tts" where
  "setPc c p s = s\<lparr>tasks := (tasks s)[c := (tasks s ! c)\<lparr>t_pc := p\<rparr>]\<rparr>"

text \<open>
  The two calls of \<open>playBrowserTts\<close> in \<open>playNativeTts\<close>, at line 211 (inside the catch
  block) and at line 214, for the request of invocation \<open>c\<close>. Neither is inside a try
  block: when \<open>playBrowserTts\<close> returns, \<open>playNativeTts\<close> returns and its promise is
  resolved; when it throws, the promise is rejected.
\<close>

definition callBrowserTts :: "nat \<Rightarrow> tts \<Rightarrow> tts" where
  "callBrowserTts c s =
     (case playBrowserTts (t_text (tasks s ! c)) (t_speaker (tasks s ! c)) c s of
        Some s' \<Rightarrow> setPc c Resolved s'
      | None \<Rightarrow> setPc c Rejected s)"

text \<open>
  Lines 96-120, run when the blob has arrived: a new \<open>Audio\<close> is stored in \<open>audioElement\<close>
  (whatever it held is overwritten, not paused), its handlers are set, and \<open>play()\<close> is
  called, which clears \<open>paused\<close>.
\<close>

definition startAudio :: "nat \<Rightarrow> tts \<Rightarrow> tts" where
  "startAudio c s =
     setPc c AwaitPlay
       (s\<lparr>audios := audios s @ [\<lparr>a_call = c, a_paused = False, a_revoked = False\<rparr>],
          audioElement := Some (length (audios s))\<rparr>)"

text \<open>
  \<open>playEdgeTts\<close> resumed by the host for invocation \<open>c\<close>; \<open>None\<close> is a throw (the
  function's own catch block logs and rethrows). \<open>Audio\<close> is an interface of the window:
  on a host without \<open>window\<close>, \<open>new Audio\<close> at line 100 is a ReferenceError.
\<close>

definition playEdgeTts :: "host_event \<Rightarrow> nat \<Rightarrow> tts \<Rightarrow> tts option" where
  "playEdgeTts e c s =
     (case e of
        TtsResponse _ ok \<Rightarrow> if ok then Some (setPc c AwaitBlob s) else None
      | TtsError _ \<Rightarrow> None
      | BlobResolved _ \<Rightarrow> if hasWindow s then Some (startAudio c s) else None
      | BlobError _ \<Rightarrow> None
      | PlayResolved _ \<Rightarrow> Some (setPc c Resolved s)
      | PlayRejected _ \<Rightarrow> None
      | _ \<Rightarrow> Some s)"

text \<open>
  Lines 205-212: the try block around \<open>playEdgeTts\<close> and its catch block, which calls
  \<open>playBrowserTts\<close>.
\<close>

definition tryEdgeTts :: "host_event \<Rightarrow> nat \<Rightarrow> tts \<Rightarrow> tts" where
  "tryEdgeTts e c s =
     (case playEdgeTts e c s of
        Some s' \<Rightarrow> s'
      | None \<Rightarrow> callBrowserTts c s)"

text \<open>
  Lines 205-215, once \<open>useEdgeTts\<close> is known: the remote path sends the request to
  \<open>/tts\<close> and suspends; the local path runs to the end.
\<close>

definition afterProbe :: "nat \<Rightarrow> bool \<Rightarrow> tts \<Rightarrow> tts" where
  "afterProbe c useEdgeTts s =
     (if useEdgeTts then setPc c AwaitTts (s\<lparr>ttsFetches := Suc (ttsFetches s)\<rparr>)
      else callBrowserTts c s)"

text \<open>
  Lines 193-203 with \<open>checkEdgeTtsAvailability\<close> (lines 33-37): stop, then either the
  memoized flag is returned, or a request to \<open>/health\<close> is sent and the invocation
  suspends. An await on a value that is already there resumes before the host delivers
  anything else, so the model runs on in the same step.
\<close>

definition playNativeTts :: "string \<Rightarrow> string \<Rightarrow> tts \<Rightarrow> tts" where
  "playNativeTts txt speakerType s =
     (let s1 = stopNativeTts s;
          c = length (tasks s1);
          s2 = s1\<lparr>tasks := tasks s1 @ [\<lparr>t_text = txt, t_speaker = speakerType, t_pc = AwaitHealth\<rparr>]\<rparr>
      in case isEdgeTtsAvailable s2 of
           Some useEdgeTts \<Rightarrow> afterProbe c useEdgeTts s2
         | None \<Rightarrow> s2\<lparr>healthFetches := Suc (healthFetches s2)\<rparr>)"

text \<open>The handlers of lines 106-117: revoke the URL, clear \<open>audioElement\<close>, call \<open>onEnd\<close>.\<close>

definition audioDone :: "nat \<Rightarrow> tts \<Rightarrow> tts" where
  "audioDone a s =
     s\<lparr>audios := (audios s)[a := (audios s ! a)\<lparr>a_revoked := True\<rparr>],
       audioElement := None,
       fired := fired s @ [OnEnd (a_call (audios s ! a))]\<rparr>"

text \<open>
  One delivery by the host. A settled promise resumes the invocation that awaits it
  (lines 38-50 for the probe); an event of an \<open>Audio\<close> or of an utterance runs the handler
  set on it. A delivery for an invocation that does not await it, or for an object that
  was never created, changes nothing. \<open>HostVoices\<close> is the host changing what
  \<open>getVoices()\<close> returns, \<open>VoicesChanged\<close> its call of the \<open>onvoiceschanged\<close> handler of
  line 26.
\<close>

fun host :: "host_event \<Rightarrow> tts \<Rightarrow> tts" where
  "host (HealthResponse c ok) s =
     (if pending c AwaitHealth s then afterProbe c ok (s\<lparr>isEdgeTtsAvailable := Some ok\<rparr>) else s)"
| "host (HealthError c) s =
     (if pending c AwaitHealth s then afterProbe c False (s\<lparr>isEdgeTtsAvailable := Some False\<rparr>)
      else s)"
| "host (TtsResponse c ok) s =
     (if pending c AwaitTts s then tryEdgeTts (TtsResponse c ok) c s else s)"
| "host (TtsError c) s = (if pending c AwaitTts s then tryEdgeTts (TtsError c) c s else s)"
| "host (BlobResolved c) s =
     (if pending c AwaitBlob s then tryEdgeTts (BlobResolved c) c s else s)"
| "host (BlobError c) s = (if pending c AwaitBlob s then tryEdgeTts (BlobError c) c s else s)"
| "host (PlayResolved c) s =
     (if pending c AwaitPlay s then tryEdgeTts (PlayResolved c) c s else s)"
| "host (PlayRejected c) s =
     (if pending c AwaitPlay s then tryEdgeTts (PlayRejected c) c s else s)"
| "host (AudioPlay a) s =
     (if a < length (audios s) then s\<lparr>fired := fired s @ [OnStart (a_call (audios s ! a))]\<rparr>
      else s)"
| "host (AudioEnded a) s = (if a < length (audios s) then audioDone a s else s)"
| "host (AudioError a) s = (if a < length (audios s) then audioDone a s else s)"
| "host (UttStart u) s =
     (if u < length (utts s) then s\<lparr>fired := fired s @ [OnStart (u_call (utts s ! u))]\<rparr> else s)"
| "host (UttEnd u) s =
     (if u < length (utts s) then s\<lparr>fired := fired s @ [OnEnd (u_call (utts s ! u))]\<rparr> else s)"
| "host (UttError u) s =
     (if u < length (utts s) then s\<lparr>fired := fired s @ [OnEnd (u_call (utts s ! u))]\<rparr> else s)"
| "host (HostVoices vs) s = s\<lparr>sysVoices := vs\<rparr>"
| "host VoicesChanged s = loadVoices s"

text \<open>A run of the module: calls of its two exported functions and deliveries by the host.\<close>

datatype action = CallPlay string string | CallStop | Host host_event

fun step :: "action \<Rightarrow> tts \<Rightarrow> tts" where
  "step (CallPlay txt speakerType) s = playNativeTts txt speakerType s"
| "step CallStop s = stopNativeTts s"
| "step (Host e) s = host e s"

fun run :: "action list \<Rightarrow> tts \<Rightarrow> tts" where
  "run [] s = s"
| "run (a # as) s = run as (step a s)"

text \<open>
  An \<open>Audio\<close> that still plays: \<open>play()\<close> was called when it was made, it has not been
  paused, and neither of its handlers for \<open>ended\<close> and \<open>error\<close> has run.
\<close>

definition live :: "audio \<Rightarrow> bool" where
  "live a = (\<not> a_paused a \<and> \<not> a_revoked a)"

section \<open>The player component (AudioPlayer)\<close>

text \<open>The three state variables of lines 12-14, all \<open>false\<close> at first.\<close>

record ui =
  isPlaying :: bool
  hasPlayed :: bool
  isLoading :: bool

definition ui_init :: ui where
  "ui_init = \<lparr>isPlaying = False, hasPlayed = False, isLoading = False\<rparr>"

text \<open>
  The four states the component shows, read off the status bar (lines 110-126): the
  loading text when \<open>isLoading\<close>, else the speaking text when \<open>isPlaying\<close>, else
  \<open>Audio finished\<close> when \<open>hasPlayed\<close>, else \<open>Click play to start\<close>.
\<close>

datatype PlaybackState = Idle | Loading | Speaking | Finished

definition playbackState :: "ui \<Rightarrow> PlaybackState" where
  "playbackState u =
     (if isLoading u then Loading
      else if isPlaying u then Speaking
      else if hasPlayed u then Finished
      else Idle)"

text \<open>The places that write the state variables, one event each.\<close>

datatype ui_event = PlayAction | CbStart | CbEnd | CbRejected | TextChanged

fun ui_step :: "ui_event \<Rightarrow> ui \<Rightarrow> ui" where
  "ui_step PlayAction u = (if isPlaying u \<or> isLoading u then u else u\<lparr>isLoading := True\<rparr>)"
| "ui_step CbStart u = u\<lparr>isLoading := False, isPlaying := True\<rparr>"
| "ui_step CbEnd u = u\<lparr>isPlaying := False, hasPlayed := True\<rparr>"
| "ui_step CbRejected u = u\<lparr>isLoading := False, isPlaying := False\<rparr>"
| "ui_step TextChanged u = u\<lparr>hasPlayed := False, isPlaying := False, isLoading := False\<rparr>"

fun ui_run :: "ui_event list \<Rightarrow> ui \<Rightarrow> ui" where
  "ui_run [] u = u"
| "ui_run (e # es) u = ui_run es (ui_step e u)"

text \<open>
  The component with the controller it drives: its state variables, the module state,
  its props \<open>text\<close> and \<open>speakerType\<close>, and how often it has called \<open>onAudioEnd\<close>.
\<close>

record app =
  ui :: ui
  ctl :: tts
  textProp :: string
  speakerTypeProp :: string
  audioEnds :: nat

text \<open>The two closures handed to \<open>playNativeTts\<close> at lines 40-50.\<close>

fun deliver :: "callback \<Rightarrow> app \<Rightarrow> app" where
  "deliver (OnStart _) a = a\<lparr>ui := ui_step CbStart (ui a)\<rparr>"
| "deliver (OnEnd _) a = a\<lparr>ui := ui_step CbEnd (ui a), audioEnds := Suc (audioEnds a)\<rparr>"

text \<open>A transition of the module, followed by the closures it called, in order.\<close>

definition viaController :: "(tts \<Rightarrow> tts) \<Rightarrow> app \<Rightarrow> app" where
  "viaController f a =
     (let c' = f (ctl a)
      in fold deliver (drop (length (fired (ctl a))) (fired c')) (a\<lparr>ctl := c'\<rparr>))"

text \<open>
  Lines 31-51: nothing happens while \<open>isPlaying\<close> or \<open>isLoading\<close>; otherwise \<open>isLoading\<close>
  is set and \<open>playNativeTts\<close> is called with the props and the two closures.
\<close>

definition handlePlay :: "app \<Rightarrow> app" where
  "handlePlay a =
     (if isPlaying (ui a) \<or> isLoading (ui a) then a
      else viaController (playNativeTts (textProp a) (speakerTypeProp a))
             (a\<lparr>ui := ui_step PlayAction (ui a)\<rparr>))"

text \<open>Lines 23-29: the effect that runs when the prop \<open>text\<close> has a new value.\<close>

definition textChanged :: "string \<Rightarrow> app \<Rightarrow> app" where
  "textChanged t a =
     a\<lparr>textProp := t, ui := ui_step TextChanged (ui a), ctl := stopNativeTts (ctl a)\<rparr>"

text \<open>
  What happens to the mounted component: a click on the play or replay button, a new
  value of the prop \<open>text\<close>, a delivery by the host to the controller, and the catch
  block of lines 52-56. The catch block runs after the await of line 37, some time after
  the promise of \<open>playNativeTts\<close> was rejected; it is an event of its own, which may come
  at any time.
\<close>

datatype app_event = Click | NewText string | Deliver host_event | Rejection

fun app_step :: "app_event \<Rightarrow> app \<Rightarrow> app" where
  "app_step Click a = handlePlay a"
| "app_step (NewText t) a = textChanged t a"
| "app_step (Deliver e) a = viaController (host e) a"
| "app_step Rejection a = a\<lparr>ui := ui_step CbRejected (ui a)\<rparr>"

fun app_run :: "app_event list \<Rightarrow> app \<Rightarrow> app" where
  "app_run [] a = a"
| "app_run (e # es) a = app_run es (app_step e a)"

text \<open>The component after mounting: the effect of lines 23-29 has run once.\<close>

definition app_init :: "tts \<Rightarrow> string \<Rightarrow> string \<Rightarrow> app" where
  "app_init c t sp =
     textChanged t \<lparr>ui = ui_init, ctl = c, textProp = t, speakerTypeProp = sp, audioEnds = 0\<rparr>"

section \<open>The voice selection as the specification words it\<close>

text \<open>
  The specification's table of keywords per role, and its order of preference: the
  keywords in their order, the first voice that matches winning; then a voice tagged
  \<open>en-US\<close>; then the first voice of the list.
\<close>

definition spec_keywords :: "string \<Rightarrow> string list" where
  "spec_keywords role =
     (if role = ''female'' then [''Aria'', ''Natural'', ''Zira'', ''Google US English'', ''female'']
      else if role = ''male'' then [''Guy'', ''Natural'', ''David'', ''male'']
      else if role = ''lecturer'' then [''Guy'', ''Christopher'', ''Roger'', ''Natural'', ''male'']
      else if role = ''duo'' then [''Aria'', ''Natural'', ''Google US English'']
      else [])"

definition nameHas :: "string \<Rightarrow> voice \<Rightarrow> bool" where
  "nameHas k v = includesStr (toLowerCase (v_name v)) (toLowerCase k)"

fun spec_byKeyword :: "voice list \<Rightarrow> string list \<Rightarrow> voice option" where
  "spec_byKeyword vs [] = None"
| "spec_byKeyword vs (k # ks) =
     (case find (nameHas k) vs of Some v \<Rightarrow> Some v | None \<Rightarrow> spec_byKeyword vs ks)"

definition spec_selectVoice :: "voice list \<Rightarrow> string \<Rightarrow> voice option" where
  "spec_selectVoice vs role =
     (case spec_byKeyword vs (spec_keywords role) of
        Some v \<Rightarrow> Some v
      | None \<Rightarrow>
          (case find (\<lambda>v. v_lang v = ''en-US'') vs of
             Some v \<Rightarrow> Some v
           | None \<Rightarrow> (case vs of [] \<Rightarrow> None | v # _ \<Rightarrow> Some v)))"

text \<open>The pool the code searches: the \<open>en-US\<close> voices when there is one, else all.\<close>

definition voicePool :: "voice list \<Rightarrow> voice list" where
  "voicePool vs =
     (if list_ex (\<lambda>v. v_lang v = ''en-US'') vs then filter (\<lambda>v. v_lang v = ''en-US'') vs else vs)"

definition firstOf :: "'a list \<Rightarrow> 'a option" where
  "firstOf xs = (case xs of [] \<Rightarrow> None | x # _ \<Rightarrow> Some x)"

text \<open>The voice pool of the specification's example.\<close>

definition zira :: voice where
  "zira = \<lparr>v_name = ''Microsoft Zira - English (United States)'', v_lang = ''en-US''\<rparr>"

text \<open>No invocation of \<open>playNativeTts\<close> has a rejected promise.\<close>

definition noReject :: "tts \<Rightarrow> bool" where
  "noReject s = list_all (\<lambda>t. t_pc t \<noteq> Rejected) (tasks s)"

text \<open>The invariant of the component's flags.\<close>

definition ui_inv :: "ui \<Rightarrow> bool" where
  "ui_inv u = (\<not> (isLoading u \<and> isPlaying u))"

section \<open>Facts about the controller's functions\<close>

text \<open>The equations that evaluate a run on concrete inputs.\<close>

lemmas ctl_defs =
  init_def initOn_def hasSpeech_def hasWindow_def loadVoices_def playNativeTts_def
  stopNativeTts_def pauseAudio_def Let_def afterProbe_def setPc_def pending_def
  playBrowserTts_def callBrowserTts_def tryEdgeTts_def playEdgeTts_def startAudio_def
  audioDone_def

lemmas voice_defs = selectVoice_def findVoice_def toLowerCase_def lowerChar_def zira_def

lemmas app_defs =
  app_init_def textChanged_def handlePlay_def viaController_def ui_init_def playbackState_def

lemmas app_eval = app_defs ctl_defs voice_defs

lemma stopNativeTts_fields:
  "isEdgeTtsAvailable (stopNativeTts s) = isEdgeTtsAvailable s"
  "healthFetches (stopNativeTts s) = healthFetches s"
  "ttsFetches (stopNativeTts s) = ttsFetches s"
  "tasks (stopNativeTts s) = tasks s"
  "fired (stopNativeTts s) = fired s"
  "utts (stopNativeTts s) = utts s"
  "hostKind (stopNativeTts s) = hostKind s"
  "hasSpeech (stopNativeTts s) = hasSpeech s"
  "availableVoices (stopNativeTts s) = availableVoices s"
  "sysVoices (stopNativeTts s) = sysVoices s"
  "audioElement (stopNativeTts s) = None"
  "length (audios (stopNativeTts s)) = length (audios s)"
  by (simp_all add: stopNativeTts_def pauseAudio_def Let_def hasSpeech_def split: option.split)

lemma stopNativeTts_queue: "hasSpeech s \<Longrightarrow> queue (stopNativeTts s) = []"
  by (simp add: stopNativeTts_def Let_def hasSpeech_def split: option.split)

lemma setPc_fields:
  "isEdgeTtsAvailable (setPc c p s) = isEdgeTtsAvailable s"
  "healthFetches (setPc c p s) = healthFetches s"
  "ttsFetches (setPc c p s) = ttsFetches s"
  "length (tasks (setPc c p s)) = length (tasks s)"
  "fired (setPc c p s) = fired s"
  "utts (setPc c p s) = utts s"
  "queue (setPc c p s) = queue s"
  "audios (setPc c p s) = audios s"
  "audioElement (setPc c p s) = audioElement s"
  "hostKind (setPc c p s) = hostKind s"
  by (simp_all add: setPc_def)

lemma setPc_pc: "c < length (tasks s) \<Longrightarrow> t_pc (tasks (setPc c p s) ! c) = p"
  by (simp add: setPc_def)

lemma playBrowserTts_fields:
  "playBrowserTts t r c s = Some s' \<Longrightarrow>
     isEdgeTtsAvailable s' = isEdgeTtsAvailable s \<and> healthFetches s' = healthFetches s \<and>
     ttsFetches s' = ttsFetches s \<and> tasks s' = tasks s \<and> audios s' = audios s \<and>
     audioElement s' = audioElement s \<and> hostKind s' = hostKind s"
  by (auto simp: playBrowserTts_def Let_def split: host_kind.splits)

lemma playBrowserTts_throws: "playBrowserTts t r c s = None \<longleftrightarrow> \<not> hasWindow s"
  by (simp add: playBrowserTts_def Let_def hasWindow_def split: host_kind.split)

lemma callBrowserTts_fields:
  "isEdgeTtsAvailable (callBrowserTts c s) = isEdgeTtsAvailable s"
  "healthFetches (callBrowserTts c s) = healthFetches s"
  "ttsFetches (callBrowserTts c s) = ttsFetches s"
  "length (tasks (callBrowserTts c s)) = length (tasks s)"
  "audios (callBrowserTts c s) = audios s"
  "audioElement (callBrowserTts c s) = audioElement s"
  "hostKind (callBrowserTts c s) = hostKind s"
  by (auto simp: callBrowserTts_def setPc_fields dest: playBrowserTts_fields
      split: option.split)

lemma callBrowserTts_pc:
  "c < length (tasks s) \<Longrightarrow>
     t_pc (tasks (callBrowserTts c s) ! c) = (if hasWindow s then Resolved else Rejected)"
  by (simp add: callBrowserTts_def playBrowserTts_def Let_def setPc_def hasWindow_def
      split: host_kind.split)

lemma afterProbe_fields:
  "isEdgeTtsAvailable (afterProbe c b s) = isEdgeTtsAvailable s"
  "healthFetches (afterProbe c b s) = healthFetches s"
  "length (tasks (afterProbe c b s)) = length (tasks s)"
  "hostKind (afterProbe c b s) = hostKind s"
  by (simp_all add: afterProbe_def setPc_fields callBrowserTts_fields)

lemma tryEdgeTts_fields:
  "isEdgeTtsAvailable (tryEdgeTts e c s) = isEdgeTtsAvailable s"
  "healthFetches (tryEdgeTts e c s) = healthFetches s"
  "length (tasks (tryEdgeTts e c s)) = length (tasks s)"
  "hostKind (tryEdgeTts e c s) = hostKind s"
  by (cases e; simp add: tryEdgeTts_def playEdgeTts_def startAudio_def setPc_fields
        callBrowserTts_fields)+

lemma playNativeTts_hostKind: "hostKind (playNativeTts t r s) = hostKind s"
  by (simp add: playNativeTts_def Let_def stopNativeTts_fields afterProbe_fields
      split: option.split)

lemma host_hostKind: "hostKind (host e s) = hostKind s"
  by (cases e)
     (simp_all add: afterProbe_fields tryEdgeTts_fields audioDone_def loadVoices_def)

lemma step_hostKind: "hostKind (step a s) = hostKind s"
  by (cases a) (simp_all add: playNativeTts_hostKind host_hostKind stopNativeTts_fields)

subsection \<open>Once the flag is set, no step probes again\<close>





section \<open>The claims\<close>




subsection \<open>The local path, and the fallback to it\<close>

lemma playBrowserTts_speech:
  "hasSpeech s \<Longrightarrow>
     map_option utts (playBrowserTts t r c s) =
       Some (utts s @ [\<lparr>u_call = c, u_text = t, u_rate = 9 / 10, u_pitch = 1,
                        u_voice = selectVoice (if availableVoices s = [] then sysVoices s
                                               else availableVoices s) r\<rparr>]) \<and>
     map_option queue (playBrowserTts t r c s) = Some [length (utts s)] \<and>
     map_option fired (playBrowserTts t r c s) = Some (fired s)"
  by (simp add: playBrowserTts_def Let_def hasSpeech_def)

lemma playBrowserTts_no_speech:
  "hostKind s = NoSpeech \<Longrightarrow>
     map_option fired (playBrowserTts t r c s) = Some (fired s @ [OnEnd c]) \<and>
     map_option utts (playBrowserTts t r c s) = Some (utts s) \<and>
     map_option queue (playBrowserTts t r c s) = Some (queue s) \<and>
     map_option audios (playBrowserTts t r c s) = Some (audios s)"
  by (simp add: playBrowserTts_def)

lemma callBrowserTts_speech:
  "hasSpeech s \<Longrightarrow>
     utts (callBrowserTts c s) =
       utts s @ [\<lparr>u_call = c, u_text = t_text (tasks s ! c), u_rate = 9 / 10, u_pitch = 1,
                  u_voice = selectVoice (if availableVoices s = [] then sysVoices s
                                         else availableVoices s) (t_speaker (tasks s ! c))\<rparr>] \<and>
     queue (callBrowserTts c s) = [length (utts s)] \<and>
     fired (callBrowserTts c s) = fired s"
  using playBrowserTts_speech [of s "t_text (tasks s ! c)" "t_speaker (tasks s ! c)" c]
  by (auto simp: callBrowserTts_def setPc_fields split: option.splits)

lemma callBrowserTts_no_speech:
  "hostKind s = NoSpeech \<Longrightarrow>
     fired (callBrowserTts c s) = fired s @ [OnEnd c] \<and>
     utts (callBrowserTts c s) = utts s \<and> queue (callBrowserTts c s) = queue s"
  using playBrowserTts_no_speech [of s "t_text (tasks s ! c)" "t_speaker (tasks s ! c)" c]
  by (auto simp: callBrowserTts_def setPc_fields split: option.splits)

lemma callBrowserTts_no_window:
  "\<not> hasWindow s \<Longrightarrow>
     fired (callBrowserTts c s) = fired s \<and> utts (callBrowserTts c s) = utts s \<and>
     queue (callBrowserTts c s) = queue s"
  by (simp add: callBrowserTts_def playBrowserTts_def hasWindow_def setPc_fields)

lemma fallback_eq:
  assumes "pending c p s"
    and "(p = AwaitTts \<and> (e = TtsResponse c False \<or> e = TtsError c)) \<or>
         (p = AwaitBlob \<and> e = BlobError c) \<or> (p = AwaitPlay \<and> e = PlayRejected c)"
  shows "host e s = callBrowserTts c s"
  using assms by (auto simp: tryEdgeTts_def playEdgeTts_def)

lemma setPc_noReject: "p \<noteq> Rejected \<Longrightarrow> noReject s \<Longrightarrow> noReject (setPc c p s)"
  unfolding noReject_def setPc_def list_all_iff
  by (auto dest!: subsetD [OF set_update_subset_insert])

lemma stopNativeTts_noReject: "noReject (stopNativeTts s) = noReject s"
  by (simp add: noReject_def stopNativeTts_fields)

lemma callBrowserTts_noReject:
  assumes "hasWindow s" and "noReject s"
  shows "noReject (callBrowserTts c s)"
proof (cases "playBrowserTts (t_text (tasks s ! c)) (t_speaker (tasks s ! c)) c s")
  case None
  with assms(1) show ?thesis by (simp add: playBrowserTts_throws)
next
  case (Some s')
  then have "tasks s' = tasks s" by (simp add: playBrowserTts_fields)
  with assms(2) have "noReject s'" by (simp add: noReject_def)
  then have "noReject (setPc c Resolved s')" by (intro setPc_noReject) simp_all
  with Some show ?thesis by (simp add: callBrowserTts_def)
qed

lemma afterProbe_noReject:
  assumes "hasWindow s" and "noReject s"
  shows "noReject (afterProbe c b s)"
proof (cases b)
  case True
  from assms(2) have "noReject (s\<lparr>ttsFetches := Suc (ttsFetches s)\<rparr>)"
    by (simp add: noReject_def)
  then have "noReject (setPc c AwaitTts (s\<lparr>ttsFetches := Suc (ttsFetches s)\<rparr>))"
    by (intro setPc_noReject) simp_all
  with True show ?thesis by (simp add: afterProbe_def)
next
  case False
  with assms show ?thesis by (simp add: afterProbe_def callBrowserTts_noReject)
qed

lemma startAudio_noReject: "noReject s \<Longrightarrow> noReject (startAudio c s)"
  unfolding startAudio_def by (rule setPc_noReject) (simp_all add: noReject_def)

lemma tryEdgeTts_noReject: "hasWindow s \<Longrightarrow> noReject s \<Longrightarrow> noReject (tryEdgeTts e c s)"
  by (cases e)
     (simp_all add: tryEdgeTts_def playEdgeTts_def startAudio_noReject setPc_noReject
        callBrowserTts_noReject)

lemma host_noReject:
  assumes "hasWindow s" and "noReject s"
  shows "noReject (host e s)"
proof (cases e)
  case (HealthResponse c ok)
  from assms have "hasWindow (s\<lparr>isEdgeTtsAvailable := Some ok\<rparr>)"
    and "noReject (s\<lparr>isEdgeTtsAvailable := Some ok\<rparr>)"
    by (simp_all add: noReject_def hasWindow_def)
  with assms HealthResponse show ?thesis by (simp add: afterProbe_noReject)
next
  case (HealthError c)
  from assms have "hasWindow (s\<lparr>isEdgeTtsAvailable := Some False\<rparr>)"
    and "noReject (s\<lparr>isEdgeTtsAvailable := Some False\<rparr>)"
    by (simp_all add: noReject_def hasWindow_def)
  with assms HealthError show ?thesis by (simp add: afterProbe_noReject)
qed (use assms in \<open>simp_all add: tryEdgeTts_noReject\<close>,
     use assms in \<open>simp_all add: noReject_def audioDone_def loadVoices_def\<close>)

lemma playNativeTts_noReject:
  assumes "hasWindow s" and "noReject s"
  shows "noReject (playNativeTts t r s)"
proof -
  let ?s2 = "(stopNativeTts s)\<lparr>tasks := tasks (stopNativeTts s) @
               [\<lparr>t_text = t, t_speaker = r, t_pc = AwaitHealth\<rparr>]\<rparr>"
  from assms have w: "hasWindow ?s2" and n: "noReject ?s2"
    by (simp_all add: noReject_def hasWindow_def stopNativeTts_fields)
  show ?thesis
  proof (cases "isEdgeTtsAvailable s")
    case None
    with n show ?thesis
      by (simp add: playNativeTts_def Let_def stopNativeTts_fields noReject_def)
  next
    case (Some b)
    with afterProbe_noReject [OF w n] show ?thesis
      by (simp add: playNativeTts_def Let_def stopNativeTts_fields)
  qed
qed

lemma step_noReject: "hasWindow s \<Longrightarrow> noReject s \<Longrightarrow> noReject (step a s)"
  by (cases a) (simp_all add: playNativeTts_noReject host_noReject stopNativeTts_noReject)

lemma run_noReject: "hasWindow s \<Longrightarrow> noReject s \<Longrightarrow> noReject (run as s)"
proof (induction as arbitrary: s)
  case Nil
  then show ?case by simp
next
  case (Cons a as)
  from Cons.prems have "hasWindow (step a s)" by (simp add: hasWindow_def step_hostKind)
  moreover from Cons.prems have "noReject (step a s)" by (rule step_noReject)
  ultimately show ?case using Cons.IH by simp
qed

text \<open>
  In a window the fallback works as the specification says. An invocation that took the
  remote path and is suspended in \<open>playEdgeTts\<close> (at the request to \<open>/tts\<close>, at
  \<open>response.blob()\<close> or at \<open>audioElement.play()\<close>) and whose awaited promise fails runs
  \<open>playBrowserTts\<close> for the same text and speaker in the same step, and its promise is
  resolved: with speech synthesis the utterance for the request is queued, without it
  \<open>onEnd\<close> is called at once. In no run from the initial state in a window is the promise
  of any invocation rejected.
\<close>

lemma remote_failure_falls_back_in_window:
  assumes "hasWindow s" and "pending c p s"
    and "(p = AwaitTts \<and> (e = TtsResponse c False \<or> e = TtsError c)) \<or>
         (p = AwaitBlob \<and> e = BlobError c) \<or> (p = AwaitPlay \<and> e = PlayRejected c)"
  shows "t_pc (tasks (host e s) ! c) = Resolved \<and>
         (hasSpeech s \<longrightarrow>
            utts (host e s) =
              utts s @ [\<lparr>u_call = c, u_text = t_text (tasks s ! c), u_rate = 9 / 10, u_pitch = 1,
                         u_voice = selectVoice (if availableVoices s = [] then sysVoices s
                                                else availableVoices s) (t_speaker (tasks s ! c))\<rparr>] \<and>
            queue (host e s) = [length (utts s)]) \<and>
         (\<not> hasSpeech s \<longrightarrow> fired (host e s) = fired s @ [OnEnd c] \<and> utts (host e s) = utts s) \<and>
         (\<forall>t \<in> set (tasks (run as (init sp vs))). t_pc t \<noteq> Rejected)"
proof -
  have h: "host e s = callBrowserTts c s"
    using assms(2,3) by (rule fallback_eq)
  have c: "c < length (tasks s)" using assms(2) by (simp add: pending_def)
  have 1: "t_pc (tasks (host e s) ! c) = Resolved"
    unfolding h using c assms(1) by (simp add: callBrowserTts_pc)
  have ns: "\<not> hasSpeech s \<Longrightarrow> hostKind s = NoSpeech"
    using assms(1) by (cases "hostKind s") (simp_all add: hasSpeech_def hasWindow_def)
  have "hasWindow (init sp vs)" and "noReject (init sp vs)"
    by (simp_all add: noReject_def hasWindow_def hasSpeech_def init_def initOn_def
        loadVoices_def)
  then have "noReject (run as (init sp vs))" by (rule run_noReject)
  then have 4: "\<forall>t \<in> set (tasks (run as (init sp vs))). t_pc t \<noteq> Rejected"
    by (simp add: noReject_def list_all_iff)
  show ?thesis
    using 1 4 callBrowserTts_speech [of s c] callBrowserTts_no_speech [of s c] ns
    by (auto simp: h)
qed


subsection \<open>The choice of a voice\<close>

lemma find_firstOf: "find P xs = firstOf (filter P xs)"
  by (induction xs) (auto simp: firstOf_def)

lemma pool_voicePool:
  "(if length (filter (\<lambda>v. v_lang v = ''en-US'') vs) > 0
    then filter (\<lambda>v. v_lang v = ''en-US'') vs else vs) = voicePool vs"
  by (auto simp: voicePool_def list_ex_iff filter_empty_conv)

lemma selectVoice_pool:
  "selectVoice vs r =
     (case filter (\<lambda>v. list_ex (\<lambda>k. nameHas k v) (spec_keywords r)) (voicePool vs) of
        v # _ \<Rightarrow> Some v
      | [] \<Rightarrow> firstOf (voicePool vs))"
  unfolding selectVoice_def Let_def findVoice_def pool_voicePool find_firstOf
  by (auto simp: spec_keywords_def nameHas_def firstOf_def split: list.splits)

lemma firstOf_voicePool:
  "firstOf (voicePool vs) =
     (case filter (\<lambda>v. v_lang v = ''en-US'') vs of u # _ \<Rightarrow> Some u | [] \<Rightarrow> firstOf vs)"
  by (auto simp: voicePool_def firstOf_def list_ex_iff filter_empty_conv split: list.splits)

text \<open>
  C4 (as amended). The code first narrows the voice list to the voices tagged \<open>en-US\<close>
  when there is one (else it keeps the whole list). In that pool it takes the first
  voice, in the order of the list, whose lower-cased name contains any of the role's
  keywords, whatever the keyword's place in its list; when no voice of the pool matches,
  it takes the first voice of the pool. With the pool holding only
  \<open>Microsoft Zira - English (United States)\<close>, role \<open>female\<close> selects it through the keyword
  \<open>Zira\<close>, and role \<open>male\<close>, for which no keyword matches, falls back to the first voice
  of the pool.
\<close>

theorem selectVoice_first_match_in_pool:
  "selectVoice vs r =
     (case filter (\<lambda>v. list_ex (\<lambda>k. nameHas k v) (spec_keywords r)) (voicePool vs) of
        v # _ \<Rightarrow> Some v
      | [] \<Rightarrow> firstOf (voicePool vs)) \<and>
   selectVoice [zira] ''female'' = Some zira \<and> nameHas ''Zira'' zira \<and>
   selectVoice [zira] ''male'' = Some zira \<and>
   findVoice [zira] [''Guy'', ''Natural'', ''David'', ''male''] = None \<and>
   firstOf (voicePool [zira]) = Some zira"
proof -
  have "selectVoice [zira] ''female'' = Some zira" by (simp add: voice_defs)
  moreover have "nameHas ''Zira'' zira" by (simp add: nameHas_def voice_defs)
  moreover have "selectVoice [zira] ''male'' = Some zira" by (simp add: voice_defs)
  moreover have "findVoice [zira] [''Guy'', ''Natural'', ''David'', ''male''] = None"
    by (simp add: voice_defs)
  moreover have "firstOf (voicePool [zira]) = Some zira"
    by (simp add: firstOf_def voicePool_def zira_def)
  ultimately show ?thesis using selectVoice_pool [of vs r] by simp
qed

text \<open>
  C4 as stated fails: with a British voice named \<open>Aria\<close> ahead of an \<open>en-US\<close> voice that
  matches no keyword, the specification's order (keywords first, \<open>en-US\<close> only when no
  keyword matches) gives \<open>Aria\<close> for role \<open>female\<close>; the code, which narrows to \<open>en-US\<close>
  before it looks at names, gives the other voice.
\<close>

theorem keyword_before_locale_counterexample:
  "spec_selectVoice [\<lparr>v_name = ''Aria'', v_lang = ''en-GB''\<rparr>,
                     \<lparr>v_name = ''Samantha'', v_lang = ''en-US''\<rparr>] ''female'' =
     Some \<lparr>v_name = ''Aria'', v_lang = ''en-GB''\<rparr> \<and>
   selectVoice [\<lparr>v_name = ''Aria'', v_lang = ''en-GB''\<rparr>,
                \<lparr>v_name = ''Samantha'', v_lang = ''en-US''\<rparr>] ''female'' =
     Some \<lparr>v_name = ''Samantha'', v_lang = ''en-US''\<rparr> \<and>
   selectVoice [\<lparr>v_name = ''Aria'', v_lang = ''en-GB''\<rparr>,
                \<lparr>v_name = ''Samantha'', v_lang = ''en-US''\<rparr>] ''female'' \<noteq>
   spec_selectVoice [\<lparr>v_name = ''Aria'', v_lang = ''en-GB''\<rparr>,
                     \<lparr>v_name = ''Samantha'', v_lang = ''en-US''\<rparr>] ''female''"
  by (simp add: spec_selectVoice_def spec_keywords_def nameHas_def voice_defs)

text \<open>
  C10. For a \<open>speakerType\<close> that is none of \<open>female\<close>, \<open>male\<close>, \<open>lecturer\<close>, \<open>duo\<close> the names
  of the voices play no part: the voice is the first \<open>en-US\<close> voice when there is one,
  else the first voice of the list (none when the list is empty). With speech synthesis
  present \<open>playBrowserTts\<close> still queues the utterance, with rate 0.9 and pitch 1.0 and
  that voice, and calls no callback.
\<close>

theorem other_role_takes_first_of_pool:
  assumes "r \<noteq> ''female''" and "r \<noteq> ''male''" and "r \<noteq> ''lecturer''" and "r \<noteq> ''duo''"
  shows "selectVoice vs r =
           (case filter (\<lambda>v. v_lang v = ''en-US'') vs of u # _ \<Rightarrow> Some u | [] \<Rightarrow> firstOf vs) \<and>
         (hasSpeech s \<longrightarrow>
            map_option utts (playBrowserTts t r c s) =
              Some (utts s @ [\<lparr>u_call = c, u_text = t, u_rate = 9 / 10, u_pitch = 1,
                         u_voice = firstOf (voicePool (if availableVoices s = [] then sysVoices s
                                                       else availableVoices s))\<rparr>]) \<and>
            map_option queue (playBrowserTts t r c s) = Some [length (utts s)] \<and>
            map_option fired (playBrowserTts t r c s) = Some (fired s))"
proof -
  have 1: "selectVoice vs r = firstOf (voicePool vs)" for vs
    using assms by (simp add: selectVoice_pool spec_keywords_def)
  show ?thesis
    using firstOf_voicePool [of vs] playBrowserTts_speech [of s t r c] by (simp add: 1)
qed

theorem other_role_takes_first_of_pool_witness:
  "selectVoice [\<lparr>v_name = ''Aria'', v_lang = ''en-GB''\<rparr>, zira] ''narrator'' = Some zira \<and>
   selectVoice [\<lparr>v_name = ''Aria'', v_lang = ''en-GB''\<rparr>] ''narrator'' =
     Some \<lparr>v_name = ''Aria'', v_lang = ''en-GB''\<rparr> \<and>
   map_option utts
     (playBrowserTts ''hello'' ''narrator'' 0
        (init True [\<lparr>v_name = ''Aria'', v_lang = ''en-GB''\<rparr>, zira])) =
     Some [\<lparr>u_call = 0, u_text = ''hello'', u_rate = 9 / 10, u_pitch = 1, u_voice = Some zira\<rparr>]"
  using
    other_role_takes_first_of_pool
      [of "''narrator''" "[\<lparr>v_name = ''Aria'', v_lang = ''en-GB''\<rparr>, zira]"
          "init True [\<lparr>v_name = ''Aria'', v_lang = ''en-GB''\<rparr>, zira]" "''hello''" 0]
    other_role_takes_first_of_pool
      [of "''narrator''" "[\<lparr>v_name = ''Aria'', v_lang = ''en-GB''\<rparr>]"
          "init True [\<lparr>v_name = ''Aria'', v_lang = ''en-GB''\<rparr>, zira]" "''hello''" 0]
  by (simp add: ctl_defs firstOf_def voicePool_def zira_def)

subsection \<open>The local path without a synthesizer or without voices\<close>

lemma playNativeTts_local_no_speech:
  assumes "isEdgeTtsAvailable s = Some False" and "hostKind s = NoSpeech"
  shows "fired (playNativeTts t r s) = fired s @ [OnEnd (length (tasks s))] \<and>
         utts (playNativeTts t r s) = utts s \<and>
         length (audios (playNativeTts t r s)) = length (audios s) \<and>
         t_pc (tasks (playNativeTts t r s) ! length (tasks s)) = Resolved"
proof -
  let ?s2 = "(stopNativeTts s)\<lparr>tasks := tasks (stopNativeTts s) @
               [\<lparr>t_text = t, t_speaker = r, t_pc = AwaitHealth\<rparr>]\<rparr>"
  have eq: "playNativeTts t r s = callBrowserTts (length (tasks s)) ?s2"
    using assms(1) by (simp add: playNativeTts_def Let_def stopNativeTts_fields afterProbe_def)
  have k: "hostKind ?s2 = NoSpeech" using assms(2) by (simp add: stopNativeTts_fields)
  have len: "length (tasks s) < length (tasks ?s2)" by (simp add: stopNativeTts_fields)
  show ?thesis
    unfolding eq
    using callBrowserTts_no_speech [OF k, of "length (tasks s)"] callBrowserTts_pc [OF len] k
    by (simp add: callBrowserTts_fields stopNativeTts_fields hasWindow_def)
qed

text \<open>
  C5 (as amended). In a window without \<open>speechSynthesis\<close>, \<open>playBrowserTts\<close> calls \<open>onEnd\<close>
  at once, returns, and creates no utterance and no \<open>Audio\<close>; so does a \<open>playNativeTts\<close>
  that finds the backend memoized as unavailable, and its promise is resolved. With
  \<open>speechSynthesis\<close> but no voice at all, the utterance is handed to \<open>speak\<close> with no voice
  set, and no callback is called by the code itself.
\<close>

theorem local_path_without_synthesizer_or_voices:
  "(hostKind s = NoSpeech \<longrightarrow>
      map_option fired (playBrowserTts t r c s) = Some (fired s @ [OnEnd c]) \<and>
      map_option utts (playBrowserTts t r c s) = Some (utts s) \<and>
      map_option queue (playBrowserTts t r c s) = Some (queue s) \<and>
      map_option audios (playBrowserTts t r c s) = Some (audios s)) \<and>
   (hostKind s = NoSpeech \<and> isEdgeTtsAvailable s = Some False \<longrightarrow>
      fired (playNativeTts t r s) = fired s @ [OnEnd (length (tasks s))] \<and>
      utts (playNativeTts t r s) = utts s \<and>
      length (audios (playNativeTts t r s)) = length (audios s) \<and>
      t_pc (tasks (playNativeTts t r s) ! length (tasks s)) = Resolved) \<and>
   (hasSpeech s \<and> availableVoices s = [] \<and> sysVoices s = [] \<longrightarrow>
      map_option utts (playBrowserTts t r c s) =
        Some (utts s @
              [\<lparr>u_call = c, u_text = t, u_rate = 9 / 10, u_pitch = 1, u_voice = None\<rparr>]) \<and>
      map_option queue (playBrowserTts t r c s) = Some [length (utts s)] \<and>
      map_option fired (playBrowserTts t r c s) = Some (fired s))"
proof (intro conjI impI)
  assume "hasSpeech s \<and> availableVoices s = [] \<and> sysVoices s = []"
  moreover have "selectVoice [] r = None" by (simp add: selectVoice_def findVoice_def)
  ultimately show
    "map_option utts (playBrowserTts t r c s) =
       Some (utts s @
             [\<lparr>u_call = c, u_text = t, u_rate = 9 / 10, u_pitch = 1, u_voice = None\<rparr>])"
    and "map_option queue (playBrowserTts t r c s) = Some [length (utts s)]"
    and "map_option fired (playBrowserTts t r c s) = Some (fired s)"
    by (simp_all add: playBrowserTts_def Let_def hasSpeech_def)
qed (simp_all add: playBrowserTts_no_speech playNativeTts_local_no_speech)

theorem local_path_without_synthesizer_or_voices_witness:
  "fired (run [CallPlay ''hello'' ''female'', Host (HealthError 0), CallPlay ''hello'' ''female'']
            (init False [])) = [OnEnd 0, OnEnd 1] \<and>
   utts (run [CallPlay ''hello'' ''female'', Host (HealthError 0), CallPlay ''hello'' ''female'']
            (init False [])) = [] \<and>
   map_option fired (playBrowserTts ''hello'' ''female'' 7 (init False [])) = Some [OnEnd 7] \<and>
   map_option utts (playBrowserTts ''hello'' ''female'' 7 (init True [])) =
     Some [\<lparr>u_call = 7, u_text = ''hello'', u_rate = 9 / 10, u_pitch = 1, u_voice = None\<rparr>] \<and>
   map_option fired (playBrowserTts ''hello'' ''female'' 7 (init True [])) = Some []"
  using
    local_path_without_synthesizer_or_voices [of "init False []" "''hello''" "''female''" 7]
    local_path_without_synthesizer_or_voices
      [of "run [CallPlay ''hello'' ''female'', Host (HealthError 0)] (init False [])"
          "''hello''" "''female''" 7]
    local_path_without_synthesizer_or_voices [of "init True []" "''hello''" "''female''" 7]
  by (simp add: ctl_defs)

text \<open>
  C5 as stated fails for the empty voice list: the backend is unavailable, the
  synthesizer exists and has no voice; after the whole of \<open>playNativeTts\<close> no callback has
  been called and an utterance without a voice sits in the synthesizer's queue.
\<close>

theorem empty_voice_list_counterexample:
  "fired (run [CallPlay ''hello'' ''female'', Host (HealthError 0)] (init True [])) = [] \<and>
   utts (run [CallPlay ''hello'' ''female'', Host (HealthError 0)] (init True [])) =
     [\<lparr>u_call = 0, u_text = ''hello'', u_rate = 9 / 10, u_pitch = 1, u_voice = None\<rparr>] \<and>
   queue (run [CallPlay ''hello'' ''female'', Host (HealthError 0)] (init True [])) = [0]"
  by (simp add: ctl_defs selectVoice_def findVoice_def)

subsection \<open>Two runs of the remote path\<close>

text \<open>
  C1, evaluated where the code departs from it. The second \<open>playNativeTts\<close> is called
  while the first waits for \<open>/tts\<close>; \<open>audioElement\<close> is still null, so its
  \<open>stopNativeTts\<close> stops nothing. Both responses and both blobs arrive: two \<open>Audio\<close>
  objects play at once and \<open>onStart\<close> is called for both invocations. A later
  \<open>stopNativeTts\<close> pauses only the second; the first keeps playing. The component gets
  there when the text changes while the first request is in flight and play is clicked
  again.
\<close>

theorem two_plays_two_live_audios:
  "audios (run [CallPlay ''one'' ''female'', Host (HealthResponse 0 True),
                CallPlay ''two'' ''female'',
                Host (TtsResponse 0 True), Host (TtsResponse 1 True),
                Host (BlobResolved 0), Host (BlobResolved 1),
                Host (AudioPlay 0), Host (AudioPlay 1)] (init True [zira])) =
     [\<lparr>a_call = 0, a_paused = False, a_revoked = False\<rparr>,
      \<lparr>a_call = 1, a_paused = False, a_revoked = False\<rparr>] \<and>
   length (filter live (audios (run [CallPlay ''one'' ''female'', Host (HealthResponse 0 True),
                CallPlay ''two'' ''female'',
                Host (TtsResponse 0 True), Host (TtsResponse 1 True),
                Host (BlobResolved 0), Host (BlobResolved 1),
                Host (AudioPlay 0), Host (AudioPlay 1)] (init True [zira])))) = 2 \<and>
   fired (run [CallPlay ''one'' ''female'', Host (HealthResponse 0 True),
                CallPlay ''two'' ''female'',
                Host (TtsResponse 0 True), Host (TtsResponse 1 True),
                Host (BlobResolved 0), Host (BlobResolved 1),
                Host (AudioPlay 0), Host (AudioPlay 1)] (init True [zira])) =
     [OnStart 0, OnStart 1] \<and>
   filter live (audios (run [CallPlay ''one'' ''female'', Host (HealthResponse 0 True),
                CallPlay ''two'' ''female'',
                Host (TtsResponse 0 True), Host (TtsResponse 1 True),
                Host (BlobResolved 0), Host (BlobResolved 1),
                Host (AudioPlay 0), Host (AudioPlay 1), CallStop] (init True [zira]))) =
     [\<lparr>a_call = 0, a_paused = False, a_revoked = False\<rparr>] \<and>
   filter live
     (audios (ctl (app_run [Click, Deliver (HealthResponse 0 True), NewText ''next'', Click,
                            Deliver (TtsResponse 0 True), Deliver (TtsResponse 1 True),
                            Deliver (BlobResolved 0), Deliver (BlobResolved 1),
                            Deliver (AudioPlay 0), Deliver (AudioPlay 1)]
                     (app_init (init True [zira]) ''passage'' ''female'')))) =
     [\<lparr>a_call = 0, a_paused = False, a_revoked = False\<rparr>,
      \<lparr>a_call = 1, a_paused = False, a_revoked = False\<rparr>]"
  by (simp add: app_eval live_def)

text \<open>
  C6, evaluated where the code departs from it. The payload of \<open>/tts\<close> cannot be decoded:
  the \<open>Audio\<close> reports an error, whose handler calls \<open>onEnd\<close>, and \<open>play()\<close> rejects,
  which starts the local fallback with the same closures; its utterance starts and
  ends. \<open>onEnd\<close> has been called twice for the one invocation, the first time before
  \<open>onStart\<close>, and the component has called \<open>onAudioEnd\<close> twice after one click.
\<close>

theorem onEnd_twice_after_decode_failure:
  "fired (run [CallPlay ''one'' ''female'', Host (HealthResponse 0 True),
               Host (TtsResponse 0 True), Host (BlobResolved 0),
               Host (AudioError 0), Host (PlayRejected 0),
               Host (UttStart 0), Host (UttEnd 0)] (init True [zira])) =
     [OnEnd 0, OnStart 0, OnEnd 0] \<and>
   length (filter (\<lambda>w. w = OnEnd 0)
     (fired (run [CallPlay ''one'' ''female'', Host (HealthResponse 0 True),
               Host (TtsResponse 0 True), Host (BlobResolved 0),
               Host (AudioError 0), Host (PlayRejected 0),
               Host (UttStart 0), Host (UttEnd 0)] (init True [zira])))) = 2 \<and>
   audioEnds
     (app_run [Click, Deliver (HealthResponse 0 True), Deliver (TtsResponse 0 True),
               Deliver (BlobResolved 0), Deliver (AudioError 0), Deliver (PlayRejected 0),
               Deliver (UttStart 0), Deliver (UttEnd 0)]
        (app_init (init True [zira]) ''passage'' ''female'')) = 2"
  by (simp add: app_eval)

section \<open>Facts about the component\<close>

lemma ui_step_inv: "ui_inv u \<Longrightarrow> ui_inv (ui_step e u)"
  by (cases e) (auto simp: ui_inv_def)

lemma ui_run_inv: "ui_inv u \<Longrightarrow> ui_inv (ui_run es u)"
  by (induction es arbitrary: u) (simp_all add: ui_step_inv)

lemma deliver_inv: "ui_inv (ui a) \<Longrightarrow> ui_inv (ui (deliver w a))"
  by (cases w) (simp_all add: ui_inv_def)

lemma fold_deliver_inv: "ui_inv (ui a) \<Longrightarrow> ui_inv (ui (fold deliver ws a))"
  by (induction ws arbitrary: a) (simp_all add: deliver_inv)

lemma viaController_inv: "ui_inv (ui a) \<Longrightarrow> ui_inv (ui (viaController f a))"
  by (simp add: viaController_def Let_def fold_deliver_inv)

lemma handlePlay_inv:
  assumes "ui_inv (ui a)"
  shows "ui_inv (ui (handlePlay a))"
proof (cases "isPlaying (ui a) \<or> isLoading (ui a)")
  case True
  with assms show ?thesis by (simp add: handlePlay_def)
next
  case False
  then have "ui_inv (ui (a\<lparr>ui := ui_step PlayAction (ui a)\<rparr>))" by (simp add: ui_inv_def)
  then have "ui_inv (ui (viaController (playNativeTts (textProp a) (speakerTypeProp a))
                           (a\<lparr>ui := ui_step PlayAction (ui a)\<rparr>)))"
    by (rule viaController_inv)
  with False show ?thesis by (simp add: handlePlay_def)
qed

lemma app_step_inv: "ui_inv (ui a) \<Longrightarrow> ui_inv (ui (app_step e a))"
  by (cases e) (simp_all add: handlePlay_inv viaController_inv textChanged_def, simp_all add: ui_inv_def)

lemma app_run_inv: "ui_inv (ui a) \<Longrightarrow> ui_inv (ui (app_run es a))"
  by (induction es arbitrary: a) (simp_all add: app_step_inv)

text \<open>
  C9. \<open>isLoading\<close> and \<open>isPlaying\<close> are never both true: not after any sequence of the
  five kinds of update (play action, \<open>onStart\<close>, \<open>onEnd\<close>, rejection handler, text change)
  from the initial flags, and not in any state the mounted component reaches with the
  controller, whatever the host delivers.
\<close>

theorem loading_and_playing_exclusive:
  "\<not> (isLoading (ui_run es ui_init) \<and> isPlaying (ui_run es ui_init)) \<and>
   \<not> (isLoading (ui (app_run as (app_init c t sp))) \<and>
      isPlaying (ui (app_run as (app_init c t sp))))"
proof -
  have "ui_inv ui_init" by (simp add: ui_inv_def ui_init_def)
  then have 1: "ui_inv (ui_run es ui_init)" by (rule ui_run_inv)
  have "ui_inv (ui (app_init c t sp))" by (simp add: ui_inv_def app_init_def textChanged_def)
  then have 2: "ui_inv (ui (app_run as (app_init c t sp)))" by (rule app_run_inv)
  from 1 2 show ?thesis by (simp add: ui_inv_def)
qed

lemma playNativeTts_tasks:
  "length (tasks (playNativeTts t r s)) = Suc (length (tasks s))"
  by (simp add: playNativeTts_def Let_def stopNativeTts_fields afterProbe_fields
      split: option.split)

lemma playNativeTts_fired:
  "fired (playNativeTts t r s) =
     fired s @ (if isEdgeTtsAvailable s = Some False \<and> hostKind s = NoSpeech
                then [OnEnd (length (tasks s))] else [])"
  by (simp add: playNativeTts_def Let_def stopNativeTts_fields afterProbe_def setPc_fields
      callBrowserTts_def playBrowserTts_def split: option.split host_kind.split)

lemma ctl_fold_deliver: "ctl (fold deliver ws a) = ctl a"
proof (induction ws arbitrary: a)
  case Nil
  show ?case by simp
next
  case (Cons w ws)
  then show ?case by (cases w) simp_all
qed

lemma ctl_viaController: "ctl (viaController f a) = f (ctl a)"
  by (simp add: viaController_def Let_def ctl_fold_deliver)

lemma handlePlay_accepted:
  assumes "\<not> isPlaying (ui a)" and "\<not> isLoading (ui a)"
  shows "isLoading (ui (handlePlay a)) \<and> \<not> isPlaying (ui (handlePlay a)) \<and>
         ctl (handlePlay a) = playNativeTts (textProp a) (speakerTypeProp a) (ctl a)"
  using assms
  by (simp add: handlePlay_def ctl_viaController)
     (simp add: viaController_def Let_def playNativeTts_fired)

text \<open>
  C7. \<open>handlePlay\<close> in state \<open>Idle\<close> or \<open>Finished\<close> moves the component to \<open>Loading\<close> and
  calls \<open>playNativeTts\<close> once, with the component's text and speaker; in state \<open>Loading\<close>
  or \<open>Speaking\<close> it changes nothing, the controller included.
\<close>

theorem play_accepted_only_when_idle_or_finished:
  "(playbackState (ui a) = Idle \<or> playbackState (ui a) = Finished \<longrightarrow>
      playbackState (ui (handlePlay a)) = Loading \<and>
      ctl (handlePlay a) = playNativeTts (textProp a) (speakerTypeProp a) (ctl a) \<and>
      length (tasks (ctl (handlePlay a))) = Suc (length (tasks (ctl a)))) \<and>
   (playbackState (ui a) = Loading \<or> playbackState (ui a) = Speaking \<longrightarrow> handlePlay a = a)"
proof -
  have 1: "playbackState (ui a) = Idle \<or> playbackState (ui a) = Finished \<Longrightarrow>
             \<not> isPlaying (ui a) \<and> \<not> isLoading (ui a)"
    by (auto simp: playbackState_def split: if_splits)
  have 2: "playbackState (ui a) = Loading \<or> playbackState (ui a) = Speaking \<Longrightarrow>
             isPlaying (ui a) \<or> isLoading (ui a)"
    by (auto simp: playbackState_def split: if_splits)
  have 3: "isPlaying (ui a) \<or> isLoading (ui a) \<Longrightarrow> handlePlay a = a"
    by (simp add: handlePlay_def)
  show ?thesis
    using 1 2 3 handlePlay_accepted [of a] playNativeTts_tasks
    by (auto simp: playbackState_def)
qed

theorem play_accepted_only_when_idle_or_finished_witness:
  "playbackState (ui (handlePlay (app_init (init True [zira]) ''passage'' ''female''))) = Loading \<and>
   length (tasks (ctl (handlePlay (app_init (init True [zira]) ''passage'' ''female'')))) = 1 \<and>
   playbackState
     (ui (app_run [Click, Deliver (HealthError 0), Deliver (UttStart 0), Deliver (UttEnd 0)]
            (app_init (init True [zira]) ''passage'' ''female''))) = Finished \<and>
   playbackState
     (ui (app_run [Click, Deliver (HealthError 0), Deliver (UttStart 0), Deliver (UttEnd 0), Click]
            (app_init (init True [zira]) ''passage'' ''female''))) = Loading \<and>
   app_run [Click, Click] (app_init (init True [zira]) ''passage'' ''female'') =
     app_run [Click] (app_init (init True [zira]) ''passage'' ''female'') \<and>
   playbackState
     (ui (app_run [Click, Deliver (HealthError 0), Deliver (UttStart 0)]
            (app_init (init True [zira]) ''passage'' ''female''))) = Speaking \<and>
   app_run [Click, Deliver (HealthError 0), Deliver (UttStart 0), Click]
     (app_init (init True [zira]) ''passage'' ''female'') =
   app_run [Click, Deliver (HealthError 0), Deliver (UttStart 0)]
     (app_init (init True [zira]) ''passage'' ''female'')"
  using
    play_accepted_only_when_idle_or_finished
      [of "app_init (init True [zira]) ''passage'' ''female''"]
    play_accepted_only_when_idle_or_finished
      [of "app_run [Click, Deliver (HealthError 0), Deliver (UttStart 0), Deliver (UttEnd 0)]
              (app_init (init True [zira]) ''passage'' ''female'')"]
    play_accepted_only_when_idle_or_finished
      [of "app_run [Click] (app_init (init True [zira]) ''passage'' ''female'')"]
    play_accepted_only_when_idle_or_finished
      [of "app_run [Click, Deliver (HealthError 0), Deliver (UttStart 0)]
              (app_init (init True [zira]) ''passage'' ''female'')"]
  by (simp add: app_eval)

lemma stopNativeTts_pauses:
  "audioElement s = Some k \<Longrightarrow> k < length (audios s) \<Longrightarrow>
     a_paused (audios (stopNativeTts s) ! k)"
  by (simp add: stopNativeTts_def Let_def pauseAudio_def)

text \<open>
  C8. When the text changes, the effect clears \<open>hasPlayed\<close>, \<open>isPlaying\<close> and \<open>isLoading\<close>
  (state \<open>Idle\<close>) and calls \<open>stopNativeTts\<close> in the same step: \<open>audioElement\<close> is null
  afterwards, the element it held is paused, the synthesizer's queue is empty, and no
  callback is called.
\<close>

theorem text_change_stops_and_resets:
  "ui (textChanged t a) = \<lparr>isPlaying = False, hasPlayed = False, isLoading = False\<rparr> \<and>
   playbackState (ui (textChanged t a)) = Idle \<and>
   textProp (textChanged t a) = t \<and>
   ctl (textChanged t a) = stopNativeTts (ctl a) \<and>
   audioElement (ctl (textChanged t a)) = None \<and>
   fired (ctl (textChanged t a)) = fired (ctl a) \<and>
   (hasSpeech (ctl a) \<longrightarrow> queue (ctl (textChanged t a)) = []) \<and>
   (\<forall>k. audioElement (ctl a) = Some k \<and> k < length (audios (ctl a)) \<longrightarrow>
        a_paused (audios (ctl (textChanged t a)) ! k))"
  using stopNativeTts_queue [of "ctl a"] stopNativeTts_pauses [of "ctl a"]
  by (simp add: textChanged_def playbackState_def stopNativeTts_fields)

theorem text_change_stops_and_resets_witness:
  "playbackState
     (ui (app_run [Click, Deliver (HealthResponse 0 True), Deliver (TtsResponse 0 True),
                   Deliver (BlobResolved 0), Deliver (AudioPlay 0)]
            (app_init (init True [zira]) ''passage'' ''female''))) = Speaking \<and>
   audioElement
     (ctl (app_run [Click, Deliver (HealthResponse 0 True), Deliver (TtsResponse 0 True),
                   Deliver (BlobResolved 0), Deliver (AudioPlay 0)]
            (app_init (init True [zira]) ''passage'' ''female''))) = Some 0 \<and>
   ui (app_run [Click, Deliver (HealthResponse 0 True), Deliver (TtsResponse 0 True),
                   Deliver (BlobResolved 0), Deliver (AudioPlay 0), NewText ''next'']
            (app_init (init True [zira]) ''passage'' ''female'')) =
     \<lparr>isPlaying = False, hasPlayed = False, isLoading = False\<rparr> \<and>
   audios (ctl (app_run [Click, Deliver (HealthResponse 0 True), Deliver (TtsResponse 0 True),
                   Deliver (BlobResolved 0), Deliver (AudioPlay 0), NewText ''next'']
            (app_init (init True [zira]) ''passage'' ''female''))) =
     [\<lparr>a_call = 0, a_paused = True, a_revoked = False\<rparr>] \<and>
   audioElement (ctl (app_run [Click, Deliver (HealthResponse 0 True), Deliver (TtsResponse 0 True),
                   Deliver (BlobResolved 0), Deliver (AudioPlay 0), NewText ''next'']
            (app_init (init True [zira]) ''passage'' ''female''))) = None"
  using
    text_change_stops_and_resets
      [of "''next''"
           "app_run [Click, Deliver (HealthResponse 0 True), Deliver (TtsResponse 0 True),
                   Deliver (BlobResolved 0), Deliver (AudioPlay 0)]
            (app_init (init True [zira]) ''passage'' ''female'')"]
  by (simp add: app_eval)

subsection \<open>An \<open>onEnd\<close> that is not preceded by \<open>onStart\<close>\<close>

text \<open>
  The \<open>onEnd\<close> closure of the component does not clear \<open>isLoading\<close>. When the local path
  has no synthesizer, \<open>onEnd\<close> comes without an \<open>onStart\<close>: the component stays in
  \<open>Loading\<close> and ignores further clicks, until the text changes.
\<close>

lemma immediate_onEnd_leaves_loading:
  "fired (ctl (app_run [Click, Deliver (HealthError 0)]
                 (app_init (init False []) ''passage'' ''female''))) = [OnEnd 0] \<and>
   playbackState (ui (app_run [Click, Deliver (HealthError 0)]
                        (app_init (init False []) ''passage'' ''female''))) = Loading \<and>
   app_run [Click, Deliver (HealthError 0), Click]
     (app_init (init False []) ''passage'' ''female'') =
   app_run [Click, Deliver (HealthError 0)]
     (app_init (init False []) ''passage'' ''female'')"
  by (simp add: app_eval)

end
